theory Spec2Isabelle
  imports Main "HOL-Library.Word"
begin

section \<open>JavaScript strings\<close>

text \<open>
  A JavaScript string is a sequence of 16-bit code units. Every string literal of
  \<^verbatim>\<open>src/index.tsx\<close> that the translation handler uses is ASCII, so a literal is
  the list of its character codes.
\<close>

type_synonym jschar = "16 word"
type_synonym jsstring = "jschar list"

definition js :: "string \<Rightarrow> jsstring" where
  "js s = map of_char s"

definition LF :: jschar where
  "LF = 0x0A"

text \<open>
  \<^verbatim>\<open>String.prototype.trim\<close> removes the code points of the ECMAScript productions
  WhiteSpace (TAB, VT, FF, ZWNBSP and the Unicode category Zs) and LineTerminator
  (LF, CR, LS, PS) from both ends. All of them are single code units.
\<close>

definition isWhiteSpace :: "jschar \<Rightarrow> bool" where
  "isWhiteSpace c = (c \<in> set [0x0009, 0x000B, 0x000C, 0xFEFF,
      0x0020, 0x00A0, 0x1680, 0x2000, 0x2001, 0x2002, 0x2003, 0x2004, 0x2005,
      0x2006, 0x2007, 0x2008, 0x2009, 0x200A, 0x202F, 0x205F, 0x3000,
      0x000A, 0x000D, 0x2028, 0x2029])"

definition trim :: "jsstring \<Rightarrow> jsstring" where
  "trim s = rev (dropWhile isWhiteSpace (rev (dropWhile isWhiteSpace s)))"

definition startsWith :: "jsstring \<Rightarrow> jsstring \<Rightarrow> bool" where
  "startsWith s p = (take (length p) s = p)"

definition endsWith :: "jsstring \<Rightarrow> jsstring \<Rightarrow> bool" where
  "endsWith s p = (length p \<le> length s \<and> drop (length s - length p) s = p)"

section \<open>The two fence regular expressions\<close>

definition FENCE :: jsstring where
  "FENCE = js ''```''"

text \<open>The class \<^verbatim>\<open>\w\<close> of a regular expression without the flags u and i: A-Z, a-z, 0-9 and _.\<close>

definition isWordChar :: "jschar \<Rightarrow> bool" where
  "isWordChar c = ((0x41 \<le> c \<and> c \<le> 0x5A) \<or> (0x61 \<le> c \<and> c \<le> 0x7A)
      \<or> (0x30 \<le> c \<and> c \<le> 0x39) \<or> c = 0x5F)"

text \<open>
  The rest of a match of \<^verbatim>\<open>\w*\n?\<close>: the star is greedy and takes every word character,
  then the optional line feed is taken when it is there. Nothing follows in the pattern, so
  the matcher never backtracks.
\<close>

fun afterTag :: "jsstring \<Rightarrow> jsstring" where
  "afterTag [] = []"
| "afterTag (c # cs) = (if isWordChar c then afterTag cs else if c = LF then cs else c # cs)"

text \<open>
  \<^verbatim>\<open>s.replace(/^```\w*\n?/, '')\<close> (line 220): the pattern is anchored at index 0 and has no
  flag, so it is tried at the start, once; where the three backticks are not there, nothing
  matches and the string is returned as it is.
\<close>

fun replaceOpeningFence :: "jsstring \<Rightarrow> jsstring" where
  "replaceOpeningFence (a # b # c # cs) =
     (if [a, b, c] = FENCE then afterTag cs else a # b # c # cs)"
| "replaceOpeningFence s = s"

text \<open>
  \<^verbatim>\<open>s.replace(/```$/g, '')\<close> (line 225): the matcher tries every index from the left. Without
  the flag m, \<^verbatim>\<open>$\<close> holds at the end of the input only, so the pattern matches at an index
  exactly when what is left of the input there is the three backticks. A match is replaced by
  the empty string and, the flag g being set, the search goes on behind the match, where the
  input is over. At an index without a match the code unit is kept.
\<close>

fun replaceClosingFence :: "jsstring \<Rightarrow> jsstring" where
  "replaceClosingFence [] = []"
| "replaceClosingFence (c # cs) = (if c # cs = FENCE then [] else c # replaceClosingFence cs)"

text \<open>The value handed to \<^verbatim>\<open>setOutputCode\<close> for an accumulated text (lines 218 to 225).\<close>

definition displayCode :: "jsstring \<Rightarrow> jsstring" where
  "displayCode fullText =
     replaceClosingFence
       (if startsWith fullText FENCE then replaceOpeningFence fullText else fullText)"

section \<open>The request sent to the model\<close>

definition LANGUAGES :: "jsstring list" where
  "LANGUAGES = map js [''Natural Language'', ''JavaScript'', ''TypeScript'', ''Python'',
     ''Java'', ''C++'', ''C#'', ''Go'', ''Rust'', ''Swift'', ''Kotlin'', ''PHP'', ''Ruby'',
     ''SQL'', ''HTML'', ''CSS'', ''Bash'', ''JSON'', ''YAML'']"

definition NATURAL_LANGUAGE :: jsstring where
  "NATURAL_LANGUAGE = js ''Natural Language''"

text \<open>The template literals of lines 187 to 194.\<close>

definition prompt :: "jsstring \<Rightarrow> jsstring \<Rightarrow> jsstring \<Rightarrow> jsstring" where
  "prompt inputLanguage outputLanguage inputCode =
     (if inputLanguage = NATURAL_LANGUAGE then
        js ''Generate '' @ outputLanguage
          @ js '' code that performs the following task:\<newline>\<newline>'' @ inputCode
      else if outputLanguage = NATURAL_LANGUAGE then
        js ''Explain the following '' @ inputLanguage
          @ js '' code in clear, concise natural language:\<newline>\<newline>'' @ inputCode
      else
        js ''Translate the following '' @ inputLanguage @ js '' code to '' @ outputLanguage
          @ js ''.\<newline>\<newline>'' @ inputCode)"

definition EXPLAIN_INSTRUCTION :: jsstring where
  "EXPLAIN_INSTRUCTION =
     js ''You are a helpful coding assistant. Explain code clearly and concisely.''"

definition RAW_CODE_INSTRUCTION :: jsstring where
  "RAW_CODE_INSTRUCTION =
     js ''You are a coding expert. Output ONLY the raw code. Do not use markdown code blocks (```). Do not add explanations or conversational text.''"

text \<open>Lines 197 to 199: the system instruction looks at the output language only.\<close>

definition systemInstruction :: "jsstring \<Rightarrow> jsstring" where
  "systemInstruction outputLanguage =
     (if outputLanguage = NATURAL_LANGUAGE then EXPLAIN_INSTRUCTION else RAW_CODE_INSTRUCTION)"

definition MODEL :: jsstring where
  "MODEL = js ''gemini-3-flash-preview''"

section \<open>The component's state and the calls it makes\<close>

text \<open>
  What \<^verbatim>\<open>handleTranslate\<close> does to the outside, in the order it does it: the state setters
  it calls, the one call that opens the stream (model, contents, system instruction), the
  confetti and the console.
\<close>

datatype effect =
    SetToast jsstring
  | SetLoading bool
  | SetOutputCode jsstring
  | GenerateContentStream jsstring jsstring jsstring
  | TriggerConfetti
  | ConsoleError

text \<open>The six \<^verbatim>\<open>useState\<close> cells of \<^verbatim>\<open>App\<close>, and the calls made so far.\<close>

record app =
  inputLanguage :: jsstring
  outputLanguage :: jsstring
  inputCode :: jsstring
  outputCode :: jsstring
  loading :: bool
  toast :: jsstring
  trace :: "effect list"

definition setToast :: "jsstring \<Rightarrow> app \<Rightarrow> app" where
  "setToast m s = s\<lparr>toast := m, trace := trace s @ [SetToast m]\<rparr>"

definition setLoading :: "bool \<Rightarrow> app \<Rightarrow> app" where
  "setLoading b s = s\<lparr>loading := b, trace := trace s @ [SetLoading b]\<rparr>"

definition setOutputCode :: "jsstring \<Rightarrow> app \<Rightarrow> app" where
  "setOutputCode t s = s\<lparr>outputCode := t, trace := trace s @ [SetOutputCode t]\<rparr>"

definition call :: "effect \<Rightarrow> app \<Rightarrow> app" where
  "call e s = s\<lparr>trace := trace s @ [e]\<rparr>"

section \<open>handleTranslate\<close>

text \<open>
  The \<^verbatim>\<open>text\<close> of a chunk is a string, or it is missing: \<^verbatim>\<open>chunk.text || ''\<close> (line 212)
  turns \<^verbatim>\<open>undefined\<close>, \<^verbatim>\<open>null\<close> and the empty string into the empty string.
\<close>

datatype chunk = Undefined | Null | Text jsstring

fun textOrEmpty :: "chunk \<Rightarrow> jsstring" where
  "textOrEmpty Undefined = []"
| "textOrEmpty Null = []"
| "textOrEmpty (Text t) = t"

text \<open>
  What the generation service does with the one request: the client's constructor throws,
  the call that opens the stream is rejected, or the stream opens, delivers chunks and then
  ends or throws. A stream that hangs for ever is not modelled.
\<close>

datatype ending = Completes | Throws

datatype response = ConstructorThrows | OpenRejects | Stream "chunk list" ending

definition EMPTY_INPUT :: jsstring where
  "EMPTY_INPUT = js ''Please enter code to translate.''"

definition SAME_LANGUAGE :: jsstring where
  "SAME_LANGUAGE = js ''Input and output languages must be different.''"

definition FAILED :: jsstring where
  "FAILED = js ''Translation failed. Check API key or network.''"

text \<open>One turn of the \<^verbatim>\<open>for await\<close> loop, lines 212 to 225, on the local \<^verbatim>\<open>fullText\<close>.\<close>

definition loopBody :: "chunk \<Rightarrow> jsstring \<times> app \<Rightarrow> jsstring \<times> app" where
  "loopBody c = (\<lambda>(fullText, s).
     let text = textOrEmpty c;
         fullText' = fullText @ text
     in (fullText', setOutputCode (displayCode fullText') s))"

fun forAwait :: "chunk list \<Rightarrow> jsstring \<times> app \<Rightarrow> jsstring \<times> app" where
  "forAwait [] st = st"
| "forAwait (c # cs) st = forAwait cs (loopBody c st)"

text \<open>Lines 210 to 226: \<^verbatim>\<open>let fullText = ''\<close> and the loop over the chunks delivered.\<close>

definition consume :: "chunk list \<Rightarrow> app \<Rightarrow> jsstring \<times> app" where
  "consume cs s = forAwait cs ([], s)"

text \<open>The \<^verbatim>\<open>catch\<close> block followed by the \<^verbatim>\<open>finally\<close> block, lines 230 to 235.\<close>

definition catchFinally :: "app \<Rightarrow> app" where
  "catchFinally s = setLoading False (setToast FAILED (call ConsoleError s))"

text \<open>The end of the \<^verbatim>\<open>try\<close> block without an error (line 228), then \<^verbatim>\<open>finally\<close>.\<close>

definition completeFinally :: "app \<Rightarrow> app" where
  "completeFinally s = setLoading False (call TriggerConfetti s)"

text \<open>The call of lines 202 to 208, with the arguments built in lines 187 to 199.\<close>

definition request :: "app \<Rightarrow> effect" where
  "request s = GenerateContentStream MODEL
     (prompt (inputLanguage s) (outputLanguage s) (inputCode s))
     (systemInstruction (outputLanguage s))"

text \<open>
  \<^verbatim>\<open>handleTranslate\<close> up to its first \<^verbatim>\<open>await\<close> (lines 171 to 208). The flag says whether
  the client's constructor throws. The result says whether the handler is now suspended,
  waiting for the stream to open; otherwise it has returned.
\<close>

definition start :: "bool \<Rightarrow> app \<Rightarrow> app \<times> bool" where
  "start constructorThrows s =
     (if trim (inputCode s) = [] then (setToast EMPTY_INPUT s, False)
      else if inputLanguage s = outputLanguage s \<and> inputLanguage s \<noteq> NATURAL_LANGUAGE
        then (setToast SAME_LANGUAGE s, False)
      else
        let s1 = setOutputCode [] (setLoading True s)
        in if constructorThrows then (catchFinally s1, False)
           else (call (request s) s1, True))"

text \<open>The whole handler, run against what the service does.\<close>

definition handleTranslate :: "response \<Rightarrow> app \<Rightarrow> app" where
  "handleTranslate r s =
     (case start (r = ConstructorThrows) s of
        (s1, False) \<Rightarrow> s1
      | (s1, True) \<Rightarrow>
          (case r of
             Stream cs e \<Rightarrow>
               (let (fullText, s2) = consume cs s1
                in case e of Completes \<Rightarrow> completeFinally s2 | Throws \<Rightarrow> catchFinally s2)
           | _ \<Rightarrow> catchFinally s1))"

section \<open>The page as a machine of events\<close>

text \<open>
  \<^verbatim>\<open>handleTranslate\<close> is asynchronous: between two of its steps the page handles other
  events. A run of the handler that is suspended at an \<^verbatim>\<open>await\<close> is a task: it waits for
  the stream to open, or it is inside the loop and holds its local \<^verbatim>\<open>fullText\<close>. The
  configuration keeps a list of tasks, so that two overlapping runs can be told apart from
  one.
\<close>

datatype task = AwaitingOpen | Streaming jsstring

record config =
  ui :: app
  tasks :: "task list"

text \<open>The initial values of the \<^verbatim>\<open>useState\<close> calls, lines 122 to 127.\<close>

definition init :: config where
  "init = \<lparr>ui = \<lparr>inputLanguage = js ''JavaScript'', outputLanguage = js ''Python'',
                  inputCode = [], outputCode = [], loading = False, toast = [], trace = []\<rparr>,
            tasks = []\<rparr>"

text \<open>
  The events of the page that bear on a translation: a choice in one of the two language
  menus, an edit of the input area, the timer of the toast, a click on Apply (with the flag
  of \<^const>\<open>start\<close>), and what the service does to the stream of the task at an index. The
  Insert and Dispatch buttons are left out: their handlers set the input and the toast
  only. Every setter is taken to be in effect before the next event is handled.
\<close>

datatype event =
    SelectInputLanguage jsstring
  | SelectOutputLanguage jsstring
  | TypeInput jsstring
  | ToastTimeout
  | ClickApply bool
  | StreamOpens nat
  | StreamRejects nat
  | StreamChunk nat chunk
  | StreamEnds nat
  | StreamThrows nat

definition taskAt :: "config \<Rightarrow> nat \<Rightarrow> task option" where
  "taskAt c i = (if i < length (tasks c) then Some (tasks c ! i) else None)"

text \<open>A task that has run through its \<^verbatim>\<open>finally\<close> block is gone.\<close>

definition finish :: "nat \<Rightarrow> app \<Rightarrow> config \<Rightarrow> config" where
  "finish i s c = c\<lparr>ui := s, tasks := take i (tasks c) @ drop (Suc i) (tasks c)\<rparr>"

text \<open>
  The menus offer the entries of \<^const>\<open>LANGUAGES\<close> (lines 72 to 76). The input area is
  \<^verbatim>\<open>readOnly={loading}\<close> (line 337). The toast is rendered while its text is not empty and
  calls \<^verbatim>\<open>setToast('')\<close> when its timer fires (lines 33 and 368). The Apply button is
  \<^verbatim>\<open>disabled={loading}\<close> (line 308): a disabled button does not call its \<^verbatim>\<open>onClick\<close>.
  An event of a stream that no task is waiting for does not happen.
\<close>

fun step :: "config \<Rightarrow> event \<Rightarrow> config" where
  "step c (SelectInputLanguage l) =
     (if l \<in> set LANGUAGES then c\<lparr>ui := (ui c)\<lparr>inputLanguage := l\<rparr>\<rparr> else c)"
| "step c (SelectOutputLanguage l) =
     (if l \<in> set LANGUAGES then c\<lparr>ui := (ui c)\<lparr>outputLanguage := l\<rparr>\<rparr> else c)"
| "step c (TypeInput t) =
     (if loading (ui c) then c else c\<lparr>ui := (ui c)\<lparr>inputCode := t\<rparr>\<rparr>)"
| "step c ToastTimeout =
     (if toast (ui c) = [] then c else c\<lparr>ui := setToast [] (ui c)\<rparr>)"
| "step c (ClickApply constructorThrows) =
     (if loading (ui c) then c
      else case start constructorThrows (ui c) of
             (s, suspended) \<Rightarrow>
               c\<lparr>ui := s, tasks := tasks c @ (if suspended then [AwaitingOpen] else [])\<rparr>)"
| "step c (StreamOpens i) =
     (case taskAt c i of
        Some AwaitingOpen \<Rightarrow> c\<lparr>tasks := (tasks c)[i := Streaming []]\<rparr>
      | _ \<Rightarrow> c)"
| "step c (StreamRejects i) =
     (case taskAt c i of
        Some AwaitingOpen \<Rightarrow> finish i (catchFinally (ui c)) c
      | _ \<Rightarrow> c)"
| "step c (StreamChunk i ch) =
     (case taskAt c i of
        Some (Streaming fullText) \<Rightarrow>
          (case loopBody ch (fullText, ui c) of
             (fullText', s) \<Rightarrow> c\<lparr>ui := s, tasks := (tasks c)[i := Streaming fullText']\<rparr>)
      | _ \<Rightarrow> c)"
| "step c (StreamEnds i) =
     (case taskAt c i of
        Some (Streaming fullText) \<Rightarrow> finish i (completeFinally (ui c)) c
      | _ \<Rightarrow> c)"
| "step c (StreamThrows i) =
     (case taskAt c i of
        Some (Streaming fullText) \<Rightarrow> finish i (catchFinally (ui c)) c
      | _ \<Rightarrow> c)"

definition run :: "config \<Rightarrow> event list \<Rightarrow> config" where
  "run c evs = foldl step c evs"

text \<open>The event that closes the stream of the only task, for each way a stream can end.\<close>

definition lastEvent :: "ending \<Rightarrow> event" where
  "lastEvent e = (case e of Completes \<Rightarrow> StreamEnds 0 | Throws \<Rightarrow> StreamThrows 0)"

section \<open>Notions of the specification\<close>

text \<open>
  The opening fence of a text that starts with three backticks, in the words of the
  specification: the three backticks, the language tag (the word characters behind them) and
  the line feed behind the tag, when there is one.
\<close>

definition openingFence :: "jsstring \<Rightarrow> jsstring" where
  "openingFence t =
     (let r = drop 3 t
      in FENCE @ takeWhile isWordChar r
           @ (if startsWith (dropWhile isWordChar r) [LF] then [LF] else []))"

definition strippedPrefix :: "jsstring \<Rightarrow> jsstring" where
  "strippedPrefix t = (if startsWith t FENCE then openingFence t else [])"

definition strippedSuffix :: "jsstring \<Rightarrow> jsstring" where
  "strippedSuffix t =
     (if endsWith (drop (length (strippedPrefix t)) t) FENCE then FENCE else [])"

text \<open>The display values of the texts accumulated from \<open>acc\<close> chunk by chunk.\<close>

fun displays :: "jsstring \<Rightarrow> chunk list \<Rightarrow> jsstring list" where
  "displays acc [] = []"
| "displays acc (c # cs) =
     displayCode (acc @ textOrEmpty c) # displays (acc @ textOrEmpty c) cs"

text \<open>A request is busy while \<^verbatim>\<open>loading\<close> is set; then exactly one task is under way.\<close>

definition oneAtATime :: "config \<Rightarrow> bool" where
  "oneAtATime c = (if loading (ui c) then length (tasks c) = 1 else tasks c = [])"

section \<open>Facts about strings and the two regular expressions\<close>

lemma FENCE_code: "FENCE = [0x60, 0x60, 0x60]"
  by (simp add: FENCE_def js_def)

lemma length_FENCE [simp]: "length FENCE = 3"
  by (simp add: FENCE_code)

lemma not_word_LF [simp]: "\<not> isWordChar LF"
  by (simp add: isWordChar_def LF_def)

lemma trim_empty_iff: "trim t = [] \<longleftrightarrow> list_all isWhiteSpace t"
proof
  assume "trim t = []"
  then have "\<forall>x \<in> set (dropWhile isWhiteSpace t). isWhiteSpace x"
    by (simp add: trim_def)
  then have "dropWhile isWhiteSpace t = []"
    using hd_dropWhile [of isWhiteSpace t] hd_in_set [of "dropWhile isWhiteSpace t"] by blast
  then show "list_all isWhiteSpace t"
    by (simp add: list_all_iff)
next
  assume "list_all isWhiteSpace t"
  then have "dropWhile isWhiteSpace t = []"
    by (simp add: list_all_iff)
  then show "trim t = []"
    by (simp only: trim_def rev.simps dropWhile.simps)
qed

lemma afterTag_split:
  "takeWhile isWordChar r
     @ (if startsWith (dropWhile isWordChar r) [LF] then [LF] else []) @ afterTag r = r"
  by (induction r) (auto simp: startsWith_def)

lemma startsWith_FENCE_iff: "startsWith t FENCE \<longleftrightarrow> (\<exists>r. t = FENCE @ r)"
proof
  assume "startsWith t FENCE"
  then have "t = FENCE @ drop 3 t"
    using append_take_drop_id [of 3 t] by (simp add: startsWith_def)
  then show "\<exists>r. t = FENCE @ r" ..
next
  assume "\<exists>r. t = FENCE @ r"
  then show "startsWith t FENCE"
    by (auto simp: startsWith_def)
qed

lemma replaceOpeningFence_FENCE: "replaceOpeningFence (FENCE @ r) = afterTag r"
  by (simp add: FENCE_code)

lemma opening_split:
  assumes "startsWith t FENCE"
  shows "t = openingFence t @ replaceOpeningFence t"
proof -
  from assms obtain r where t: "t = FENCE @ r"
    by (auto simp: startsWith_FENCE_iff)
  have "drop 3 t = r"
    by (simp add: t)
  then show ?thesis
    using afterTag_split [of r]
    by (simp add: openingFence_def t replaceOpeningFence_FENCE del: replaceOpeningFence.simps)
qed

lemma endsWith_Cons:
  assumes ne: "c # cs \<noteq> p"
  shows "endsWith (c # cs) p \<longleftrightarrow> endsWith cs p"
proof (cases "length p \<le> length cs")
  case True
  then have "Suc (length cs) - length p = Suc (length cs - length p)"
    by simp
  then show ?thesis
    using True by (simp add: endsWith_def)
next
  case False
  show ?thesis
  proof (cases "length p = Suc (length cs)")
    case True
    then show ?thesis using ne False by (simp add: endsWith_def)
  next
    case False
    then show ?thesis using \<open>\<not> length p \<le> length cs\<close> by (simp add: endsWith_def)
  qed
qed

lemma replaceClosingFence_suffix:
  "replaceClosingFence t = (if endsWith t FENCE then take (length t - 3) t else t)"
proof (induction t)
  case Nil
  show ?case by (simp add: endsWith_def)
next
  case (Cons c cs)
  show ?case
  proof (cases "c # cs = FENCE")
    case True
    have "replaceClosingFence (c # cs) = []"
      by (subst replaceClosingFence.simps) (simp add: True)
    moreover have "endsWith (c # cs) FENCE" "take (length (c # cs) - 3) (c # cs) = []"
      by (simp_all only: True endsWith_def length_FENCE) simp_all
    ultimately show ?thesis by (simp only: if_True)
  next
    case False
    have e: "endsWith (c # cs) FENCE \<longleftrightarrow> endsWith cs FENCE"
      using False by (rule endsWith_Cons)
    show ?thesis
    proof (cases "endsWith cs FENCE")
      case True
      then have "3 \<le> length cs" by (simp add: endsWith_def)
      then have "Suc (length cs) - 3 = Suc (length cs - 3)" by simp
      then show ?thesis using Cons False e True by simp
    next
      case False
      then show ?thesis using Cons \<open>c # cs \<noteq> FENCE\<close> e by simp
    qed
  qed
qed

lemma endsWith_append:
  assumes "length p \<le> length ys"
  shows "endsWith (xs @ ys) p \<longleftrightarrow> endsWith ys p"
proof -
  have "length (xs @ ys) - length p = length xs + (length ys - length p)"
    using assms by simp
  then show ?thesis
    using assms by (simp add: endsWith_def)
qed

lemma replaceClosingFence_append:
  assumes "3 \<le> length ys"
  shows "replaceClosingFence (xs @ ys) = xs @ replaceClosingFence ys"
proof -
  have "length (xs @ ys) - 3 = length xs + (length ys - 3)"
    using assms by simp
  then show ?thesis
    using assms by (simp add: replaceClosingFence_suffix endsWith_append)
qed

lemma displayCode_split: "t = strippedPrefix t @ displayCode t @ strippedSuffix t"
proof -
  let ?m = "if startsWith t FENCE then replaceOpeningFence t else t"
  have m: "t = strippedPrefix t @ ?m"
    using opening_split [of t] by (simp add: strippedPrefix_def)
  have d: "drop (length (strippedPrefix t)) t = ?m"
    using arg_cong [OF m, of "drop (length (strippedPrefix t))"] by simp
  have "?m = replaceClosingFence ?m @ (if endsWith ?m FENCE then FENCE else [])"
  proof (cases "endsWith ?m FENCE")
    case True
    then have "drop (length ?m - 3) ?m = FENCE"
      by (simp add: endsWith_def)
    then have "take (length ?m - 3) ?m @ FENCE = ?m"
      using append_take_drop_id [of "length ?m - 3" ?m] by simp
    then show ?thesis
      using True by (simp add: replaceClosingFence_suffix)
  next
    case False
    then show ?thesis by (simp add: replaceClosingFence_suffix)
  qed
  then have "?m = displayCode t @ strippedSuffix t"
    by (simp only: displayCode_def strippedSuffix_def d)
  then show ?thesis using m by simp
qed

lemma displayCode_Nil [simp]: "displayCode [] = []"
  by (simp add: displayCode_def startsWith_def FENCE_code)

lemmas display_eval = displayCode_def js_def startsWith_def FENCE_code isWordChar_def LF_def

section \<open>Facts about the loop and the handler\<close>

lemma length_displays [simp]: "length (displays acc cs) = length cs"
  by (induction cs arbitrary: acc) simp_all

lemma loopBody_eq:
  "loopBody c (fullText, s) =
     (fullText @ textOrEmpty c, setOutputCode (displayCode (fullText @ textOrEmpty c)) s)"
  by (simp add: loopBody_def Let_def)

lemma forAwait_eq:
  "forAwait cs (acc, s) =
     (acc @ concat (map textOrEmpty cs),
      s\<lparr>outputCode := (if cs = [] then outputCode s
                        else displayCode (acc @ concat (map textOrEmpty cs))),
        trace := trace s @ map SetOutputCode (displays acc cs)\<rparr>)"
proof (induction cs arbitrary: acc s)
  case Nil
  show ?case by simp
next
  case (Cons c cs)
  show ?case
    by (simp add: Cons loopBody_eq setOutputCode_def)
qed

lemma consume_eq:
  "consume cs s =
     (concat (map textOrEmpty cs),
      s\<lparr>outputCode := (if cs = [] then outputCode s
                        else displayCode (concat (map textOrEmpty cs))),
        trace := trace s @ map SetOutputCode (displays [] cs)\<rparr>)"
  by (simp add: consume_def forAwait_eq)

lemma start_accepted:
  assumes "trim (inputCode s) \<noteq> []"
    and "inputLanguage s \<noteq> outputLanguage s \<or> inputLanguage s = NATURAL_LANGUAGE"
  shows "start ct s =
     (if ct then (catchFinally (setOutputCode [] (setLoading True s)), False)
      else (call (request s) (setOutputCode [] (setLoading True s)), True))"
  using assms by (auto simp: start_def Let_def)

lemma start_rejected:
  assumes "trim (inputCode s) = [] \<or>
     (inputLanguage s = outputLanguage s \<and> inputLanguage s \<noteq> NATURAL_LANGUAGE)"
  shows "start ct s =
     (setToast (if trim (inputCode s) = [] then EMPTY_INPUT else SAME_LANGUAGE) s, False)"
  using assms by (auto simp: start_def)

lemma handleTranslate_rejected:
  assumes "trim (inputCode s) = [] \<or>
     (inputLanguage s = outputLanguage s \<and> inputLanguage s \<noteq> NATURAL_LANGUAGE)"
  shows "handleTranslate r s =
     setToast (if trim (inputCode s) = [] then EMPTY_INPUT else SAME_LANGUAGE) s"
  by (simp add: handleTranslate_def start_rejected [OF assms])

lemmas setters = setLoading_def setOutputCode_def setToast_def call_def

lemma handleTranslate_stream:
  assumes "trim (inputCode s) \<noteq> []"
    and "inputLanguage s \<noteq> outputLanguage s \<or> inputLanguage s = NATURAL_LANGUAGE"
  shows "handleTranslate (Stream cs e) s =
     (case e of Completes \<Rightarrow> completeFinally | Throws \<Rightarrow> catchFinally)
       (s\<lparr>loading := True, outputCode := displayCode (concat (map textOrEmpty cs)),
          trace := trace s @ [SetLoading True, SetOutputCode [], request s]
                     @ map SetOutputCode (displays [] cs)\<rparr>)"
  by (cases e) (simp_all add: handleTranslate_def start_accepted [OF assms] consume_eq setters)

lemma handleTranslate_open_rejects:
  assumes "trim (inputCode s) \<noteq> []"
    and "inputLanguage s \<noteq> outputLanguage s \<or> inputLanguage s = NATURAL_LANGUAGE"
  shows "handleTranslate OpenRejects s =
     catchFinally (s\<lparr>loading := True, outputCode := [],
          trace := trace s @ [SetLoading True, SetOutputCode [], request s]\<rparr>)"
  by (simp add: handleTranslate_def start_accepted [OF assms] setters)

lemma handleTranslate_constructor_throws:
  assumes "trim (inputCode s) \<noteq> []"
    and "inputLanguage s \<noteq> outputLanguage s \<or> inputLanguage s = NATURAL_LANGUAGE"
  shows "handleTranslate ConstructorThrows s =
     catchFinally (s\<lparr>loading := True, outputCode := [],
          trace := trace s @ [SetLoading True, SetOutputCode []]\<rparr>)"
  by (simp add: handleTranslate_def start_accepted [OF assms] setters)

lemma catchFinally_eq:
  "catchFinally s = s\<lparr>loading := False, toast := FAILED,
     trace := trace s @ [ConsoleError, SetToast FAILED, SetLoading False]\<rparr>"
  by (simp add: catchFinally_def setters)

lemma completeFinally_eq:
  "completeFinally s = s\<lparr>loading := False, trace := trace s @ [TriggerConfetti, SetLoading False]\<rparr>"
  by (simp add: completeFinally_def setters)

section \<open>Facts about the machine\<close>

lemma loading_catchFinally [simp]: "\<not> loading (catchFinally s)"
  by (simp add: catchFinally_eq)

lemma loading_completeFinally [simp]: "\<not> loading (completeFinally s)"
  by (simp add: completeFinally_eq)

lemma loading_loopBody: "loopBody ch (t, s) = (t', s') \<Longrightarrow> loading s' = loading s"
  by (auto simp: loopBody_eq setOutputCode_def)

lemma loading_start:
  "\<not> loading s \<Longrightarrow> loading (fst (start ct s)) = snd (start ct s)"
  by (simp add: start_def Let_def setters)

lemma oneAtATime_step:
  assumes "oneAtATime c"
  shows "oneAtATime (step c ev)"
proof (cases ev)
  case (ClickApply ct)
  show ?thesis
    using assms loading_start [of "ui c" ct]
    by (auto simp: ClickApply oneAtATime_def split: prod.splits if_splits)
next
  case (StreamChunk i ch)
  show ?thesis
    using assms
    by (auto simp: StreamChunk oneAtATime_def taskAt_def dest: loading_loopBody
          split: prod.splits option.splits task.splits if_splits)
qed (use assms in \<open>auto simp: oneAtATime_def taskAt_def finish_def setToast_def
       split: option.splits task.splits if_splits\<close>)

lemma oneAtATime_run: "oneAtATime c \<Longrightarrow> oneAtATime (run c evs)"
  unfolding run_def by (induction evs arbitrary: c) (simp_all add: oneAtATime_step)

lemma oneAtATime_init: "oneAtATime init"
  by (simp add: oneAtATime_def init_def)

text \<open>
  A click on Apply followed by the events of its stream, with no other event in between,
  leaves the page in the state that \<^const>\<open>handleTranslate\<close> computes.
\<close>

lemma run_chunks:
  "run \<lparr>ui = s, tasks = [Streaming acc]\<rparr> (map (StreamChunk 0) cs) =
     \<lparr>ui = snd (forAwait cs (acc, s)), tasks = [Streaming (fst (forAwait cs (acc, s)))]\<rparr>"
proof (induction cs arbitrary: s acc)
  case Nil
  show ?case by (simp add: run_def)
next
  case (Cons c cs)
  have "step \<lparr>ui = s, tasks = [Streaming acc]\<rparr> (StreamChunk 0 c) =
      \<lparr>ui = snd (loopBody c (acc, s)), tasks = [Streaming (fst (loopBody c (acc, s)))]\<rparr>"
    by (simp add: taskAt_def loopBody_eq)
  then show ?case
    using Cons [of "snd (loopBody c (acc, s))" "fst (loopBody c (acc, s))"]
    by (simp add: run_def)
qed

lemma run_no_task: "run \<lparr>ui = s, tasks = []\<rparr> (StreamOpens 0 # map (StreamChunk 0) cs @ [lastEvent e])
   = \<lparr>ui = s, tasks = []\<rparr>"
proof -
  have "run \<lparr>ui = s, tasks = []\<rparr> (map (StreamChunk 0) cs) = \<lparr>ui = s, tasks = []\<rparr>"
    by (induction cs) (simp_all add: run_def taskAt_def)
  then show ?thesis
    by (cases e) (simp_all add: run_def taskAt_def lastEvent_def)
qed

lemma run_is_handleTranslate:
  assumes "\<not> loading s"
  shows "run \<lparr>ui = s, tasks = []\<rparr>
           (ClickApply False # StreamOpens 0 # map (StreamChunk 0) cs @ [lastEvent e])
         = \<lparr>ui = handleTranslate (Stream cs e) s, tasks = []\<rparr>"
proof -
  obtain u suspended where st: "start False s = (u, suspended)"
    by (cases "start False s")
  show ?thesis
  proof (cases suspended)
    case False
    have "step \<lparr>ui = s, tasks = []\<rparr> (ClickApply False) = \<lparr>ui = u, tasks = []\<rparr>"
      using assms by (simp add: st False)
    moreover have "handleTranslate (Stream cs e) s = u"
      by (simp add: handleTranslate_def st False)
    ultimately show ?thesis
      using run_no_task [of u cs e] by (simp add: run_def)
  next
    case True
    have 1: "step \<lparr>ui = s, tasks = []\<rparr> (ClickApply False) = \<lparr>ui = u, tasks = [AwaitingOpen]\<rparr>"
      using assms by (simp add: st True)
    have 2: "step \<lparr>ui = u, tasks = [AwaitingOpen]\<rparr> (StreamOpens 0) =
        \<lparr>ui = u, tasks = [Streaming []]\<rparr>"
      by (simp add: taskAt_def)
    have 3: "step \<lparr>ui = v, tasks = [Streaming t]\<rparr> (lastEvent Completes) =
        \<lparr>ui = completeFinally v, tasks = []\<rparr>"
      "step \<lparr>ui = v, tasks = [Streaming t]\<rparr> (lastEvent Throws) =
        \<lparr>ui = catchFinally v, tasks = []\<rparr>" for v t
      by (simp_all add: lastEvent_def taskAt_def finish_def)
    have 4: "handleTranslate (Stream cs Completes) s = completeFinally (snd (consume cs u))"
      "handleTranslate (Stream cs Throws) s = catchFinally (snd (consume cs u))"
      by (simp_all add: handleTranslate_def st True case_prod_beta)
    have "run \<lparr>ui = s, tasks = []\<rparr>
             (ClickApply False # StreamOpens 0 # map (StreamChunk 0) cs @ [lastEvent e])
       = step (run \<lparr>ui = u, tasks = [Streaming []]\<rparr> (map (StreamChunk 0) cs)) (lastEvent e)"
      using 1 2 by (simp add: run_def)
    then show ?thesis
      by (cases e) (simp_all add: run_chunks 3 4 consume_def)
  qed
qed

section \<open>The claims\<close>

text \<open>
  C1. For every fragment, the loop appends the fragment's text to the accumulator as it is and
  publishes a display value computed from the whole accumulated text. The display value is
  the accumulated text without one opening fence at its start (three backticks, language
  tag, line feed if there is one) when the text starts with three backticks, and without one
  closing fence (three backticks) when what is left ends with it. For the accumulated text
  of a whole fenced block \<^verbatim>\<open>print(1)\<close> the display value is the line with its line feed, and
  for a text with an opening fence only it is the text behind that fence.
\<close>

theorem display_value_strips_one_fence_at_each_end:
  "loopBody c (fullText, s) =
     (fullText @ textOrEmpty c, setOutputCode (displayCode (fullText @ textOrEmpty c)) s)
   \<and> t = strippedPrefix t @ displayCode t @ strippedSuffix t
   \<and> displayCode (js ''```python\<newline>print(1)\<newline>```'') = js ''print(1)\<newline>''
   \<and> displayCode (js ''```py\<newline>x = 1'') = js ''x = 1''"
proof -
  have "displayCode (js ''```python\<newline>print(1)\<newline>```'') = js ''print(1)\<newline>''"
    by (simp add: display_eval)
  moreover have "displayCode (js ''```py\<newline>x = 1'') = js ''x = 1''"
    by (simp add: display_eval)
  ultimately show ?thesis
    using loopBody_eq [of c fullText s] displayCode_split [of t] by simp
qed

text \<open>
  C2. After the chunks delivered by the stream have been processed in order, the accumulator
  is the concatenation of their texts, in that order; for chunks that all carry a text it is
  the concatenation of the fragments, however the text was cut into them.
\<close>

theorem accumulator_is_concatenation:
  "fst (consume cs s) = concat (map textOrEmpty cs)
   \<and> fst (consume (map Text fs) s) = concat fs"
proof -
  have "map textOrEmpty (map Text fs) = fs"
    by (induction fs) simp_all
  then show ?thesis
    by (simp add: consume_eq del: map_map)
qed

text \<open>
  C3. In every configuration the page can reach from its initial one, at most one
  translation is under way, and one is under way exactly when \<^verbatim>\<open>loading\<close> is set. A click
  on Apply while \<^verbatim>\<open>loading\<close> is set changes nothing: no state cell, no accumulated text, no
  call, no further task.
\<close>

theorem submit_while_busy_changes_nothing:
  "length (tasks (run init evs)) \<le> 1
   \<and> (tasks (run init evs) \<noteq> [] \<longleftrightarrow> loading (ui (run init evs)))
   \<and> (loading (ui (run init evs)) \<longrightarrow>
        step (run init evs) (ClickApply constructorThrows) = run init evs)"
proof -
  have "oneAtATime (run init evs)"
    by (rule oneAtATime_run [OF oneAtATime_init])
  then show ?thesis
    by (auto simp: oneAtATime_def split: if_splits)
qed

theorem submit_while_busy_changes_nothing_witness:
  "loading (ui (run init [TypeInput (js ''x''), ClickApply False, StreamOpens 0,
      StreamChunk 0 (Text (js ''y''))]))
   \<and> step (run init [TypeInput (js ''x''), ClickApply False, StreamOpens 0,
      StreamChunk 0 (Text (js ''y''))]) (ClickApply False)
     = run init [TypeInput (js ''x''), ClickApply False, StreamOpens 0,
      StreamChunk 0 (Text (js ''y''))]"
proof -
  have "loading (ui (run init [TypeInput (js ''x''), ClickApply False, StreamOpens 0,
      StreamChunk 0 (Text (js ''y''))]))"
    by (simp add: run_def init_def start_def trim_def isWhiteSpace_def js_def
        NATURAL_LANGUAGE_def taskAt_def loopBody_eq setters)
  then show ?thesis
    using submit_while_busy_changes_nothing
      [of "[TypeInput (js ''x''), ClickApply False, StreamOpens 0,
            StreamChunk 0 (Text (js ''y''))]" False]
    by blast
qed

text \<open>
  C4. When a request has passed the two checks and the client's constructor throws, the
  opening call is rejected, or the stream throws after some chunks: the handler ends with
  \<^verbatim>\<open>loading\<close> off and the failure notice shown; the output is the display value of the texts
  received before the error (empty when there were none), the same as after a stream that
  ends behind these chunks; the calls made are the ones of the run up to the error, then one
  console entry, the notice and \<^verbatim>\<open>setLoading(false)\<close>, with at most one call that opens a
  stream; and the same request is accepted again afterwards.
\<close>

theorem error_keeps_output_and_frees_session:
  assumes "trim (inputCode s) \<noteq> []"
    and "inputLanguage s \<noteq> outputLanguage s \<or> inputLanguage s = NATURAL_LANGUAGE"
  shows "handleTranslate (Stream cs Throws) s =
           s\<lparr>loading := False, outputCode := displayCode (concat (map textOrEmpty cs)),
             toast := FAILED,
             trace := trace s @ [SetLoading True, SetOutputCode [], request s]
               @ map SetOutputCode (displays [] cs)
               @ [ConsoleError, SetToast FAILED, SetLoading False]\<rparr>
       \<and> handleTranslate OpenRejects s =
           s\<lparr>loading := False, outputCode := [], toast := FAILED,
             trace := trace s @ [SetLoading True, SetOutputCode [], request s,
               ConsoleError, SetToast FAILED, SetLoading False]\<rparr>
       \<and> handleTranslate ConstructorThrows s =
           s\<lparr>loading := False, outputCode := [], toast := FAILED,
             trace := trace s @ [SetLoading True, SetOutputCode [],
               ConsoleError, SetToast FAILED, SetLoading False]\<rparr>
       \<and> outputCode (handleTranslate (Stream cs Throws) s) =
           outputCode (handleTranslate (Stream cs Completes) s)
       \<and> snd (start False (handleTranslate (Stream cs Throws) s))
       \<and> snd (start False (handleTranslate OpenRejects s))
       \<and> snd (start False (handleTranslate ConstructorThrows s))"
proof -
  have a: "handleTranslate (Stream cs Throws) s =
           s\<lparr>loading := False, outputCode := displayCode (concat (map textOrEmpty cs)),
             toast := FAILED,
             trace := trace s @ [SetLoading True, SetOutputCode [], request s]
               @ map SetOutputCode (displays [] cs)
               @ [ConsoleError, SetToast FAILED, SetLoading False]\<rparr>"
    by (simp add: handleTranslate_stream [OF assms] catchFinally_eq)
  have b: "handleTranslate OpenRejects s =
           s\<lparr>loading := False, outputCode := [], toast := FAILED,
             trace := trace s @ [SetLoading True, SetOutputCode [], request s,
               ConsoleError, SetToast FAILED, SetLoading False]\<rparr>"
    by (simp add: handleTranslate_open_rejects [OF assms] catchFinally_eq)
  have c: "handleTranslate ConstructorThrows s =
           s\<lparr>loading := False, outputCode := [], toast := FAILED,
             trace := trace s @ [SetLoading True, SetOutputCode [],
               ConsoleError, SetToast FAILED, SetLoading False]\<rparr>"
    by (simp add: handleTranslate_constructor_throws [OF assms] catchFinally_eq)
  have d: "outputCode (handleTranslate (Stream cs Throws) s) =
           outputCode (handleTranslate (Stream cs Completes) s)"
    by (simp add: handleTranslate_stream [OF assms] catchFinally_eq completeFinally_eq)
  have e: "snd (start False (handleTranslate (Stream cs Throws) s))"
    using assms by (simp add: a start_accepted)
  have f: "snd (start False (handleTranslate OpenRejects s))"
    using assms by (simp add: b start_accepted)
  have g: "snd (start False (handleTranslate ConstructorThrows s))"
    using assms by (simp add: c start_accepted)
  from a b c d e f g show ?thesis by blast
qed

theorem error_keeps_output_and_frees_session_witness:
  "trim (inputCode ((ui init)\<lparr>inputCode := js ''x''\<rparr>)) \<noteq> []
   \<and> inputLanguage ((ui init)\<lparr>inputCode := js ''x''\<rparr>)
       \<noteq> outputLanguage ((ui init)\<lparr>inputCode := js ''x''\<rparr>)
   \<and> outputCode (handleTranslate (Stream [Text (js ''```py\<newline>''), Undefined, Text (js ''a'')] Throws)
        ((ui init)\<lparr>inputCode := js ''x''\<rparr>)) = js ''a''
   \<and> \<not> loading (handleTranslate (Stream [Text (js ''```py\<newline>''), Undefined, Text (js ''a'')] Throws)
        ((ui init)\<lparr>inputCode := js ''x''\<rparr>))
   \<and> toast (handleTranslate OpenRejects ((ui init)\<lparr>inputCode := js ''x''\<rparr>)) = FAILED"
proof -
  have h1: "trim (inputCode ((ui init)\<lparr>inputCode := js ''x''\<rparr>)) \<noteq> []"
    by (simp add: trim_def isWhiteSpace_def js_def)
  have h2: "inputLanguage ((ui init)\<lparr>inputCode := js ''x''\<rparr>)
       \<noteq> outputLanguage ((ui init)\<lparr>inputCode := js ''x''\<rparr>)"
    by (simp add: init_def js_def)
  have "displayCode (concat (map textOrEmpty [Text (js ''```py\<newline>''), Undefined, Text (js ''a'')]))
      = js ''a''"
    by (simp add: display_eval)
  then show ?thesis
    using h1 h2 error_keeps_output_and_frees_session
      [of "(ui init)\<lparr>inputCode := js ''x''\<rparr>" "[Text (js ''```py\<newline>''), Undefined, Text (js ''a'')]",
       OF h1 disjI1 [OF h2]]
    by simp
qed

text \<open>
  C5. When the input and the output language are the same and are not
  \<^verbatim>\<open>Natural Language\<close>, the handler returns at once: it sets a notice that is not empty (the
  one for an empty input when the input trims to nothing, the one for equal languages
  otherwise) and does nothing else. No stream is opened, it does not suspend, and
  \<^verbatim>\<open>loading\<close> and the output are as before.
\<close>

theorem same_language_is_rejected:
  assumes "inputLanguage s = outputLanguage s" and "inputLanguage s \<noteq> NATURAL_LANGUAGE"
  shows "handleTranslate r s =
           s\<lparr>toast := (if trim (inputCode s) = [] then EMPTY_INPUT else SAME_LANGUAGE),
             trace := trace s @
               [SetToast (if trim (inputCode s) = [] then EMPTY_INPUT else SAME_LANGUAGE)]\<rparr>
       \<and> EMPTY_INPUT \<noteq> [] \<and> SAME_LANGUAGE \<noteq> []
       \<and> \<not> snd (start constructorThrows s)
       \<and> loading (handleTranslate r s) = loading s
       \<and> outputCode (handleTranslate r s) = outputCode s"
proof -
  have rej: "trim (inputCode s) = [] \<or>
     (inputLanguage s = outputLanguage s \<and> inputLanguage s \<noteq> NATURAL_LANGUAGE)"
    using assms by simp
  have "EMPTY_INPUT \<noteq> []" "SAME_LANGUAGE \<noteq> []"
    by (simp_all add: EMPTY_INPUT_def SAME_LANGUAGE_def js_def)
  then show ?thesis
    by (simp add: handleTranslate_rejected [OF rej] start_rejected [OF rej] setToast_def)
qed

theorem same_language_is_rejected_witness:
  "inputLanguage ((ui init)\<lparr>inputCode := js ''x'', outputLanguage := js ''JavaScript''\<rparr>)
     = outputLanguage ((ui init)\<lparr>inputCode := js ''x'', outputLanguage := js ''JavaScript''\<rparr>)
   \<and> inputLanguage ((ui init)\<lparr>inputCode := js ''x'', outputLanguage := js ''JavaScript''\<rparr>)
     \<noteq> NATURAL_LANGUAGE
   \<and> handleTranslate (Stream [Text (js ''y'')] Completes)
       ((ui init)\<lparr>inputCode := js ''x'', outputLanguage := js ''JavaScript''\<rparr>)
     = (ui init)\<lparr>inputCode := js ''x'', outputLanguage := js ''JavaScript'',
         toast := SAME_LANGUAGE, trace := [SetToast SAME_LANGUAGE]\<rparr>"
proof -
  have h1: "inputLanguage ((ui init)\<lparr>inputCode := js ''x'', outputLanguage := js ''JavaScript''\<rparr>)
     = outputLanguage ((ui init)\<lparr>inputCode := js ''x'', outputLanguage := js ''JavaScript''\<rparr>)"
    by (simp add: init_def)
  have h2: "inputLanguage ((ui init)\<lparr>inputCode := js ''x'', outputLanguage := js ''JavaScript''\<rparr>)
     \<noteq> NATURAL_LANGUAGE"
    by (simp add: init_def NATURAL_LANGUAGE_def js_def)
  have h3: "trim (js ''x'') \<noteq> []"
    by (simp add: trim_def isWhiteSpace_def js_def)
  show ?thesis
    using h1 h2 h3 same_language_is_rejected [OF h1 h2, of "Stream [Text (js ''y'')] Completes"]
    by (simp add: init_def)
qed

text \<open>
  C6. When the input is empty or made of white space only, it trims to the empty string and
  the handler returns at once: it sets the notice for an empty input and does nothing else.
  No stream is opened, it does not suspend, and \<^verbatim>\<open>loading\<close> and the output are as before.
\<close>

theorem blank_input_is_rejected:
  assumes "list_all isWhiteSpace (inputCode s)"
  shows "trim (inputCode s) = []
       \<and> handleTranslate r s =
           s\<lparr>toast := EMPTY_INPUT, trace := trace s @ [SetToast EMPTY_INPUT]\<rparr>
       \<and> EMPTY_INPUT \<noteq> []
       \<and> \<not> snd (start constructorThrows s)
       \<and> loading (handleTranslate r s) = loading s
       \<and> outputCode (handleTranslate r s) = outputCode s"
proof -
  have t: "trim (inputCode s) = []"
    using assms by (simp add: trim_empty_iff)
  then have rej: "trim (inputCode s) = [] \<or>
     (inputLanguage s = outputLanguage s \<and> inputLanguage s \<noteq> NATURAL_LANGUAGE)"
    by simp
  have "EMPTY_INPUT \<noteq> []"
    by (simp add: EMPTY_INPUT_def js_def)
  then show ?thesis
    using t by (simp add: handleTranslate_rejected [OF rej] start_rejected [OF rej] setToast_def)
qed

theorem blank_input_is_rejected_witness:
  "list_all isWhiteSpace (inputCode ((ui init)\<lparr>inputCode := [0x20, 0x0A, 0x09, 0xA0, 0x3000],
       outputCode := js ''old''\<rparr>))
   \<and> handleTranslate (Stream [Text (js ''y'')] Completes)
       ((ui init)\<lparr>inputCode := [0x20, 0x0A, 0x09, 0xA0, 0x3000], outputCode := js ''old''\<rparr>)
     = (ui init)\<lparr>inputCode := [0x20, 0x0A, 0x09, 0xA0, 0x3000], outputCode := js ''old'',
         toast := EMPTY_INPUT, trace := [SetToast EMPTY_INPUT]\<rparr>"
proof -
  have h: "list_all isWhiteSpace (inputCode ((ui init)\<lparr>inputCode := [0x20, 0x0A, 0x09, 0xA0, 0x3000],
       outputCode := js ''old''\<rparr>))"
    by (simp add: isWhiteSpace_def)
  show ?thesis
    using h blank_input_is_rejected [OF h, of "Stream [Text (js ''y'')] Completes"]
    by (simp add: init_def)
qed

text \<open>
  C7, as the code has it. With \<^verbatim>\<open>Natural Language\<close> as input language the prompt is the one
  that asks for code in the output language, followed by the input. The system instruction
  is chosen by the output language alone: the explanation instruction when the output
  language is \<^verbatim>\<open>Natural Language\<close>, the raw-code-only instruction otherwise, and the two
  differ. Exactly one of the three prompt templates is used, and which one can be read off
  the first letter of the prompt.
\<close>

theorem natural_language_input_builds_generation_prompt:
  "prompt NATURAL_LANGUAGE outL src =
     js ''Generate '' @ outL
       @ js '' code that performs the following task:\<newline>\<newline>'' @ src
   \<and> systemInstruction outL =
       (if outL = NATURAL_LANGUAGE then EXPLAIN_INSTRUCTION else RAW_CODE_INSTRUCTION)
   \<and> EXPLAIN_INSTRUCTION \<noteq> RAW_CODE_INSTRUCTION
   \<and> take 1 (prompt inL outL src) =
       (if inL = NATURAL_LANGUAGE then js ''G''
        else if outL = NATURAL_LANGUAGE then js ''E'' else js ''T'')"
proof -
  have "EXPLAIN_INSTRUCTION \<noteq> RAW_CODE_INSTRUCTION"
    by (simp add: EXPLAIN_INSTRUCTION_def RAW_CODE_INSTRUCTION_def js_def)
  then show ?thesis
    by (simp add: prompt_def systemInstruction_def js_def)
qed

text \<open>
  C7 as stated fails when both languages are \<^verbatim>\<open>Natural Language\<close>: the request passes the
  checks and is sent with the generation prompt and the explanation instruction, not the
  raw-code-only one.
\<close>

theorem natural_language_to_natural_language_counterexample:
  "start False \<lparr>inputLanguage = NATURAL_LANGUAGE, outputLanguage = NATURAL_LANGUAGE,
       inputCode = js ''hi'', outputCode = [], loading = False, toast = [], trace = []\<rparr>
     = (\<lparr>inputLanguage = NATURAL_LANGUAGE, outputLanguage = NATURAL_LANGUAGE,
         inputCode = js ''hi'', outputCode = [], loading = True, toast = [],
         trace = [SetLoading True, SetOutputCode [],
           GenerateContentStream MODEL
             (js ''Generate Natural Language code that performs the following task:\<newline>\<newline>hi'')
             EXPLAIN_INSTRUCTION]\<rparr>, True)
   \<and> EXPLAIN_INSTRUCTION \<noteq> RAW_CODE_INSTRUCTION"
proof -
  have "EXPLAIN_INSTRUCTION \<noteq> RAW_CODE_INSTRUCTION"
    by (simp add: EXPLAIN_INSTRUCTION_def RAW_CODE_INSTRUCTION_def js_def)
  moreover have "trim (js ''hi'') \<noteq> []"
    by (simp add: trim_def isWhiteSpace_def js_def)
  ultimately show ?thesis
    by (simp add: start_def request_def prompt_def systemInstruction_def setters
        NATURAL_LANGUAGE_def js_def)
qed

text \<open>
  C8, as the code has it. At every render the second replacement is applied to the
  accumulated text (without its opening fence when it starts with three backticks) and its
  result is the display value. It removes three backticks at the very end of its argument
  only: when the argument ends with three backticks its last three code units are removed,
  otherwise it is returned as it is. Every code unit before the last three stays where it
  is, so three backticks that are followed by three or more code units are still there in
  the result.
\<close>

theorem closing_fence_removed_at_the_end_only:
  "displayCode t =
     replaceClosingFence (if startsWith t FENCE then replaceOpeningFence t else t)
   \<and> replaceClosingFence m = (if endsWith m FENCE then take (length m - 3) m else m)
   \<and> take (length m - 3) (replaceClosingFence m) = take (length m - 3) m
   \<and> replaceClosingFence (pre @ FENCE @ a # b # c # post)
       = pre @ FENCE @ replaceClosingFence (a # b # c # post)"
proof -
  have "replaceClosingFence ((pre @ FENCE) @ a # b # c # post)
       = (pre @ FENCE) @ replaceClosingFence (a # b # c # post)"
    by (rule replaceClosingFence_append) simp
  then show ?thesis
    by (simp add: replaceClosingFence_suffix [of m] displayCode_def)
qed

text \<open>
  C8 as stated fails at these two accumulated texts: the three backticks inside the first
  one are kept in its display value, and of the two occurrences in the second one only the
  one at the very end is removed.
\<close>

theorem inner_fence_is_kept_counterexample:
  "displayCode (js ''Use ``` to fence code.'') = js ''Use ``` to fence code.''
   \<and> displayCode (js ''a```b```'') = js ''a```b''"
  by (simp add: display_eval)

text \<open>
  C9. When a request fails a check, the handler makes one call and no other: it sets one
  notice. The check for an empty input comes first, so the notice is the one for an empty
  input whenever the input trims to nothing, also when the languages are equal as well; the
  notice for equal languages is a different text.
\<close>

theorem empty_input_is_checked_first:
  assumes "trim (inputCode s) = [] \<or>
     (inputLanguage s = outputLanguage s \<and> inputLanguage s \<noteq> NATURAL_LANGUAGE)"
  shows "trace (handleTranslate r s) =
           trace s @ [SetToast (if trim (inputCode s) = [] then EMPTY_INPUT else SAME_LANGUAGE)]
       \<and> toast (handleTranslate r s) =
           (if trim (inputCode s) = [] then EMPTY_INPUT else SAME_LANGUAGE)
       \<and> EMPTY_INPUT \<noteq> SAME_LANGUAGE"
proof -
  have "EMPTY_INPUT \<noteq> SAME_LANGUAGE"
    by (simp add: EMPTY_INPUT_def SAME_LANGUAGE_def js_def)
  then show ?thesis
    by (simp add: handleTranslate_rejected [OF assms] setToast_def)
qed

theorem empty_input_is_checked_first_witness:
  "trim (inputCode ((ui init)\<lparr>inputCode := js ''  '', outputLanguage := js ''JavaScript''\<rparr>)) = []
   \<and> inputLanguage ((ui init)\<lparr>inputCode := js ''  '', outputLanguage := js ''JavaScript''\<rparr>)
     = outputLanguage ((ui init)\<lparr>inputCode := js ''  '', outputLanguage := js ''JavaScript''\<rparr>)
   \<and> inputLanguage ((ui init)\<lparr>inputCode := js ''  '', outputLanguage := js ''JavaScript''\<rparr>)
     \<noteq> NATURAL_LANGUAGE
   \<and> trace (handleTranslate OpenRejects
        ((ui init)\<lparr>inputCode := js ''  '', outputLanguage := js ''JavaScript''\<rparr>))
     = [SetToast EMPTY_INPUT]"
proof -
  have h: "trim (inputCode ((ui init)\<lparr>inputCode := js ''  '', outputLanguage := js ''JavaScript''\<rparr>)) = []"
    by (simp add: trim_def isWhiteSpace_def js_def)
  have l: "inputLanguage ((ui init)\<lparr>inputCode := js ''  '', outputLanguage := js ''JavaScript''\<rparr>)
     \<noteq> NATURAL_LANGUAGE"
    by (simp add: init_def NATURAL_LANGUAGE_def js_def)
  show ?thesis
    using h l empty_input_is_checked_first [OF disjI1 [OF h], of OpenRejects]
    by (simp add: init_def)
qed

text \<open>
  C10. A chunk whose text is \<^verbatim>\<open>undefined\<close>, \<^verbatim>\<open>null\<close> or the empty string leaves the
  accumulator as it is and still publishes the display value of the accumulator. The loop
  calls \<^verbatim>\<open>setOutputCode\<close> once for every chunk and makes no other call, so it publishes as
  many times as chunks were received.
\<close>

theorem every_chunk_publishes_once:
  "loopBody Undefined (fullText, s) = (fullText, setOutputCode (displayCode fullText) s)
   \<and> loopBody Null (fullText, s) = (fullText, setOutputCode (displayCode fullText) s)
   \<and> loopBody (Text []) (fullText, s) = (fullText, setOutputCode (displayCode fullText) s)
   \<and> trace (snd (consume cs s)) = trace s @ map SetOutputCode (displays [] cs)
   \<and> length (displays [] cs) = length cs"
  by (simp add: loopBody_eq consume_eq)

end
